theory Spec2Isabelle
  imports Complex_Main "HOL-Library.Extended_Nat" "HOL-Library.Multiset"
begin

section \<open>JavaScript values\<close>

text \<open>
  A JavaScript number is \<open>NaN\<close>, one of the two infinities, or a finite double. A finite
  double is a rational, carried here exactly; comparisons on doubles are exact, and the
  rounding of \<open>+\<close>, \<open>-\<close>, \<open>*\<close> and \<open>/\<close> is left out. \<open>Fin 0\<close> stands for both zeros.
\<close>

datatype jsnum = NaN | NegInf | PosInf | Fin rat

text \<open>The primitive values a parsed JSON row or a form field holds, and \<open>undefined\<close>.\<close>

datatype jsval = Undefined | Null | Bool bool | Num jsnum | Str string

fun isNaN :: "jsnum \<Rightarrow> bool" where
  "isNaN NaN = True"
| "isNaN _ = False"

fun isFinite :: "jsnum \<Rightarrow> bool" where
  "isFinite (Fin _) = True"
| "isFinite _ = False"

text \<open>
  \<open>Number(v)\<close>. The conversion of a string (StringToNumber) is the host's; it is the
  parameter \<open>S\<close> of every function that coerces.
\<close>

fun Number :: "(string \<Rightarrow> jsnum) \<Rightarrow> jsval \<Rightarrow> jsnum" where
  "Number S Undefined = NaN"
| "Number S Null = Fin 0"
| "Number S (Bool b) = (if b then Fin 1 else Fin 0)"
| "Number S (Num n) = n"
| "Number S (Str s) = S s"

text \<open>\<open>typeof v === 'number'\<close> and \<open>typeof v === 'string'\<close>.\<close>

fun isNumber :: "jsval \<Rightarrow> bool" where
  "isNumber (Num _) = True"
| "isNumber _ = False"

fun isString :: "jsval \<Rightarrow> bool" where
  "isString (Str _) = True"
| "isString _ = False"

text \<open>Truthiness, and \<open>a || b\<close> on values.\<close>

fun truthy :: "jsval \<Rightarrow> bool" where
  "truthy Undefined = False"
| "truthy Null = False"
| "truthy (Bool b) = b"
| "truthy (Num NaN) = False"
| "truthy (Num (Fin q)) = (q \<noteq> 0)"
| "truthy (Num _) = True"
| "truthy (Str s) = (s \<noteq> [])"

definition js_or :: "jsval \<Rightarrow> jsval \<Rightarrow> jsval" where
  "js_or a b = (if truthy a then a else b)"

text \<open>\<open>a >= b\<close> and \<open>a > b\<close> on numbers: false as soon as one side is \<open>NaN\<close>.\<close>

fun js_ge :: "jsnum \<Rightarrow> jsnum \<Rightarrow> bool" where
  "js_ge NaN _ = False"
| "js_ge _ NaN = False"
| "js_ge PosInf _ = True"
| "js_ge _ NegInf = True"
| "js_ge NegInf _ = False"
| "js_ge _ PosInf = False"
| "js_ge (Fin a) (Fin b) = (b \<le> a)"

fun js_gt :: "jsnum \<Rightarrow> jsnum \<Rightarrow> bool" where
  "js_gt NaN _ = False"
| "js_gt _ NaN = False"
| "js_gt _ PosInf = False"
| "js_gt NegInf _ = False"
| "js_gt PosInf _ = True"
| "js_gt _ NegInf = True"
| "js_gt (Fin a) (Fin b) = (b < a)"

text \<open>Arithmetic on numbers, with the IEEE rules for \<open>NaN\<close> and the infinities.\<close>

fun js_neg :: "jsnum \<Rightarrow> jsnum" where
  "js_neg NaN = NaN"
| "js_neg NegInf = PosInf"
| "js_neg PosInf = NegInf"
| "js_neg (Fin a) = Fin (- a)"

fun js_add :: "jsnum \<Rightarrow> jsnum \<Rightarrow> jsnum" where
  "js_add NaN _ = NaN"
| "js_add _ NaN = NaN"
| "js_add PosInf NegInf = NaN"
| "js_add NegInf PosInf = NaN"
| "js_add PosInf _ = PosInf"
| "js_add _ PosInf = PosInf"
| "js_add NegInf _ = NegInf"
| "js_add _ NegInf = NegInf"
| "js_add (Fin a) (Fin b) = Fin (a + b)"

definition js_sub :: "jsnum \<Rightarrow> jsnum \<Rightarrow> jsnum" where
  "js_sub a b = js_add a (js_neg b)"

text \<open>The infinity of the sign of \<open>q\<close>, for a non-zero \<open>q\<close>.\<close>

definition signedInf :: "rat \<Rightarrow> jsnum" where
  "signedInf q = (if 0 < q then PosInf else NegInf)"

fun js_mul :: "jsnum \<Rightarrow> jsnum \<Rightarrow> jsnum" where
  "js_mul NaN _ = NaN"
| "js_mul _ NaN = NaN"
| "js_mul PosInf PosInf = PosInf"
| "js_mul PosInf NegInf = NegInf"
| "js_mul NegInf PosInf = NegInf"
| "js_mul NegInf NegInf = PosInf"
| "js_mul PosInf (Fin b) = (if b = 0 then NaN else signedInf b)"
| "js_mul NegInf (Fin b) = (if b = 0 then NaN else signedInf (- b))"
| "js_mul (Fin a) PosInf = (if a = 0 then NaN else signedInf a)"
| "js_mul (Fin a) NegInf = (if a = 0 then NaN else signedInf (- a))"
| "js_mul (Fin a) (Fin b) = Fin (a * b)"

text \<open>
  Division. A zero divisor is taken as \<open>+0\<close>: the quotient of a non-zero finite number
  is then the infinity of the dividend's sign, and \<open>0 / 0\<close> is \<open>NaN\<close>.
\<close>

fun js_div :: "jsnum \<Rightarrow> jsnum \<Rightarrow> jsnum" where
  "js_div NaN _ = NaN"
| "js_div _ NaN = NaN"
| "js_div PosInf (Fin b) = (if b < 0 then NegInf else PosInf)"
| "js_div NegInf (Fin b) = (if b < 0 then PosInf else NegInf)"
| "js_div (Fin a) (Fin b) =
     (if b = 0 then (if a = 0 then NaN else signedInf a) else Fin (a / b))"
| "js_div (Fin a) _ = Fin 0"
| "js_div _ _ = NaN"

section \<open>The fetch hook \<open>useApi\<close>\<close>

text \<open>
  The hook keeps three state cells, \<open>data\<close>, \<open>loading\<close> and \<open>error\<close>, initially
  \<open>null\<close>, \<open>true\<close> and \<open>null\<close>. Its effect depends on
  \<open>[endpoint, JSON.stringify(params)]\<close>: when that pair differs from the one of the
  previous render, the cleanup of the previous effect aborts its controller, and the
  effect body creates a new controller, sets \<open>loading\<close> to \<open>true\<close> and \<open>error\<close> to
  \<open>null\<close>, and starts the fetch. The promise chain of a fetch runs later, when the request
  settles.
\<close>

text \<open>
  What a rejection carries: the abort of the controller, the \<open>Error('HTTP <status>')\<close>
  thrown on a response that is not ok, a network failure, a body that does not parse.
\<close>

datatype js_error = AbortError | HttpError nat | NetworkError | SyntaxError

text \<open>
  How a request settles on the wire: a response with its status and what \<open>res.json()\<close>
  gives for its body, or a rejected fetch.
\<close>

datatype 'j body = Json 'j | BodyRejected js_error

datatype 'j outcome = Response nat "'j body" | Rejected js_error

record 'j hook =
  data :: "'j option"
  loading :: bool
  error :: "js_error option"
  deps :: "(string \<times> string) option"
  controllers :: nat
  aborted :: "nat list"

text \<open>
  \<open>deps\<close> is the dependency pair of the last effect run, \<open>controllers\<close> the number of
  AbortControllers created so far (the effect run number \<open>k\<close> owns controller \<open>k\<close>,
  counted from 0), \<open>aborted\<close> the controllers whose \<open>abort()\<close> has been called.
\<close>

definition useApi_init :: "'j hook" where
  "useApi_init =
     \<lparr>data = None, loading = True, error = None, deps = None, controllers = 0, aborted = []\<rparr>"

text \<open>The cleanup \<open>() => controller.abort()\<close> of the effect run that is current.\<close>

definition cleanup :: "'j hook \<Rightarrow> 'j hook" where
  "cleanup h =
     (if controllers h = 0 then h else h\<lparr>aborted := (controllers h - 1) # aborted h\<rparr>)"

text \<open>The effect body up to the call of \<open>fetch\<close>.\<close>

definition effect :: "string \<times> string \<Rightarrow> 'j hook \<Rightarrow> 'j hook" where
  "effect ident h =
     h\<lparr>loading := True, error := None, deps := Some ident, controllers := controllers h + 1\<rparr>"

text \<open>A render with the given dependency pair: React runs the effect only when it changed.\<close>

definition render :: "string \<times> string \<Rightarrow> 'j hook \<Rightarrow> 'j hook" where
  "render ident h = (if deps h = Some ident then h else effect ident (cleanup h))"

text \<open>\<open>res.ok\<close>: the status is in the range 200 to 299.\<close>

definition ok :: "nat \<Rightarrow> bool" where
  "ok status = (200 \<le> status \<and> status \<le> 299)"

text \<open>
  What reaches the promise chain of controller \<open>k\<close>: once the controller is aborted, the
  pending fetch (or the pending read of the body) rejects with an \<open>AbortError\<close>.
\<close>

definition delivered :: "'j hook \<Rightarrow> nat \<Rightarrow> 'j outcome \<Rightarrow> 'j outcome" where
  "delivered h k out = (if k \<in> set (aborted h) then Rejected AbortError else out)"

text \<open>
  The two \<open>then\<close> callbacks: a response that is not ok throws, otherwise the parsed body
  is passed on; the result is the value for \<open>setData\<close> or the error for \<open>catch\<close>.
\<close>

fun thens :: "'j outcome \<Rightarrow> js_error + 'j" where
  "thens (Rejected e) = Inl e"
| "thens (Response status b) =
     (if \<not> ok status then Inl (HttpError status)
      else (case b of Json j \<Rightarrow> Inr j | BodyRejected e \<Rightarrow> Inl e))"

text \<open>
  The whole chain: \<open>setData(json)\<close> on success; in \<open>catch\<close>, \<open>setError(err)\<close> unless
  \<open>err.name\<close> is \<open>'AbortError'\<close>; then \<open>finally\<close>, \<open>setLoading(false)\<close>, on every path.
\<close>

definition chain :: "'j outcome \<Rightarrow> 'j hook \<Rightarrow> 'j hook" where
  "chain out h =
     (let h1 = (case thens out of
                  Inr j \<Rightarrow> h\<lparr>data := Some j\<rparr>
                | Inl e \<Rightarrow> (if e \<noteq> AbortError then h\<lparr>error := Some e\<rparr> else h))
      in h1\<lparr>loading := False\<rparr>)"

text \<open>The request of controller \<open>k\<close> settles with \<open>out\<close>.\<close>

definition settle :: "nat \<Rightarrow> 'j outcome \<Rightarrow> 'j hook \<Rightarrow> 'j hook" where
  "settle k out h = chain (delivered h k out) h"

text \<open>A run of the hook: renders and settlements, in the order they happen.\<close>

datatype 'j event = Render "string \<times> string" | Settle nat "'j outcome"

fun step :: "'j hook \<Rightarrow> 'j event \<Rightarrow> 'j hook" where
  "step h (Render ident) = render ident h"
| "step h (Settle k out) = settle k out h"

definition run :: "'j event list \<Rightarrow> 'j hook" where
  "run evs = foldl step useApi_init evs"

text \<open>The three cells the hook returns.\<close>

definition visible :: "'j hook \<Rightarrow> 'j option \<times> bool \<times> js_error option" where
  "visible h = (data h, loading h, error h)"

section \<open>The screener page\<close>

subsection \<open>State and request identity\<close>

text \<open>
  A row is a parsed JSON object: a field that is absent reads as \<open>undefined\<close>.
\<close>

type_synonym row = "string \<rightharpoonup> jsval"

definition field :: "row \<Rightarrow> string \<Rightarrow> jsval" where
  "field r k = (case r k of None \<Rightarrow> Undefined | Some v \<Rightarrow> v)"

record form =
  minVolume :: jsval
  minOpenInterest :: jsval
  minSpread :: jsval
  minTradability :: jsval
  minChurn :: jsval
  sortBy :: string
  sortDir :: string

text \<open>
  The state cells of \<open>ScreenerPage\<close>. \<open>refreshNonce\<close>, \<open>page\<close> and \<open>pageSize\<close> hold
  counts; they are natural numbers here, which a JavaScript number represents exactly
  below \<open>2^53\<close>.
\<close>

record screener =
  form :: form
  refreshNonce :: nat
  allRows :: "row list"
  filteredRows :: "row list"
  page :: nat
  pageSize :: nat

definition defaultForm :: form where
  "defaultForm =
     \<lparr>minVolume = Str [], minOpenInterest = Str [], minSpread = Str [],
      minTradability = Str [], minChurn = Str [],
      sortBy = ''tradability_score'', sortDir = ''desc''\<rparr>"

definition screener_init :: screener where
  "screener_init =
     \<lparr>form = defaultForm, refreshNonce = 0, allRows = [], filteredRows = [],
      page = 1, pageSize = 25\<rparr>"

text \<open>The decimal digits of a count, as \<open>JSON.stringify\<close> and \<open>String\<close> print it.\<close>

fun decimal :: "nat \<Rightarrow> string" where
  "decimal n =
     (if n < 10 then [char_of (48 + n)]
      else decimal (n div 10) @ [char_of (48 + n mod 10)])"

text \<open>
  \<open>JSON.stringify\<close> of an object whose values are counts and whose keys need no
  escaping: the members in insertion order, separated by commas, in braces.
\<close>

definition jsonMember :: "string \<times> nat \<Rightarrow> string" where
  "jsonMember kv = [CHR 0x22] @ fst kv @ [CHR 0x22, CHR '':''] @ decimal (snd kv)"

fun commaJoin :: "string list \<Rightarrow> string" where
  "commaJoin [] = []"
| "commaJoin [x] = x"
| "commaJoin (x # xs) = x @ '','' @ commaJoin xs"

definition JSON_stringify :: "(string \<times> nat) list \<Rightarrow> string" where
  "JSON_stringify kvs = ''{'' @ commaJoin (map jsonMember kvs) @ ''}''"

text \<open>
  The call \<open>useApi('/markets/screener', {limit: 250, _refresh: refreshNonce})\<close>: the
  dependency pair the hook sees at a render of the page.
\<close>

definition screenerParams :: "screener \<Rightarrow> (string \<times> nat) list" where
  "screenerParams s = [(''limit'', 250), (''_refresh'', refreshNonce s)]"

definition screenerRequest :: "screener \<Rightarrow> string \<times> string" where
  "screenerRequest s = (''/markets/screener'', JSON_stringify (screenerParams s))"

text \<open>\<open>refreshOnly\<close>: \<open>setRefreshNonce((n) => n + 1)\<close>.\<close>

definition refreshOnly :: "screener \<Rightarrow> screener" where
  "refreshOnly s = s\<lparr>refreshNonce := refreshNonce s + 1\<rparr>"

subsection \<open>Filtering\<close>

text \<open>
  \<open>passMin(value, minValue)\<close>: an empty, \<open>null\<close> or \<open>undefined\<close> threshold passes every
  value, and so does a threshold that \<open>Number\<close> turns into \<open>NaN\<close>; otherwise the value, as
  a number, is compared with the threshold.
\<close>

definition passMin :: "(string \<Rightarrow> jsnum) \<Rightarrow> jsval \<Rightarrow> jsval \<Rightarrow> bool" where
  "passMin S v minValue =
     (if minValue = Str [] \<or> minValue = Null \<or> minValue = Undefined then True
      else let m = Number S minValue in
        if isNaN m then True
        else if isNumber v then js_ge (Number S v) m
        else let numericValue = Number S v in
          if isNaN numericValue then False
          else js_ge numericValue m)"

text \<open>The predicate of \<open>allRows.filter\<close> in \<open>applyFilters\<close>.\<close>

definition passes :: "(string \<Rightarrow> jsnum) \<Rightarrow> form \<Rightarrow> row \<Rightarrow> bool" where
  "passes S f r =
     (passMin S (field r ''volume'') (minVolume f) \<and>
      passMin S (field r ''open_interest'') (minOpenInterest f) \<and>
      passMin S (field r ''spread_ticks'') (minSpread f) \<and>
      passMin S (field r ''tradability_score'') (minTradability f) \<and>
      passMin S (field r ''churn_rate'') (minChurn f))"

subsection \<open>Sorting\<close>

text \<open>
  The comparator of \<open>sortRows\<close>. Two strings are compared by \<open>localeCompare\<close>, the host's
  collation, which is the parameter \<open>L\<close>; anything else is compared as numbers, a number
  that is not finite replaced by \<open>-Infinity\<close>. Every direction but \<open>'asc'\<close> is descending.
\<close>

definition safe :: "jsnum \<Rightarrow> jsnum" where
  "safe n = (if isFinite n then n else NegInf)"

definition compareRows ::
  "(string \<Rightarrow> jsnum) \<Rightarrow> (string \<Rightarrow> string \<Rightarrow> int) \<Rightarrow> form \<Rightarrow> row \<Rightarrow> row \<Rightarrow> jsnum" where
  "compareRows S L f a b =
     (case (field a (sortBy f), field b (sortBy f)) of
        (Str aVal, Str bVal) \<Rightarrow>
          (if sortDir f = ''asc'' then Fin (of_int (L aVal bVal)) else Fin (of_int (L bVal aVal)))
      | (aVal, bVal) \<Rightarrow>
          (let safeA = safe (Number S aVal); safeB = safe (Number S bVal)
           in if sortDir f = ''asc'' then js_sub safeA safeB else js_sub safeB safeA))"

text \<open>
  \<open>Array.prototype.sort\<close> with a comparator: a comparator result of \<open>NaN\<close> counts as
  \<open>0\<close>, and the sort is stable. It is an insertion sort here: an element moves behind
  the elements it compares greater than.
\<close>

definition sortCompare :: "('a \<Rightarrow> 'a \<Rightarrow> jsnum) \<Rightarrow> 'a \<Rightarrow> 'a \<Rightarrow> jsnum" where
  "sortCompare cmp x y = (let v = cmp x y in if isNaN v then Fin 0 else v)"

fun insertSorted :: "('a \<Rightarrow> 'a \<Rightarrow> jsnum) \<Rightarrow> 'a \<Rightarrow> 'a list \<Rightarrow> 'a list" where
  "insertSorted cmp x [] = [x]"
| "insertSorted cmp x (y # ys) =
     (if js_gt (sortCompare cmp x y) (Fin 0) then y # insertSorted cmp x ys else x # y # ys)"

fun Array_sort :: "('a \<Rightarrow> 'a \<Rightarrow> jsnum) \<Rightarrow> 'a list \<Rightarrow> 'a list" where
  "Array_sort cmp [] = []"
| "Array_sort cmp (x # xs) = insertSorted cmp x (Array_sort cmp xs)"

definition sortRows ::
  "(string \<Rightarrow> jsnum) \<Rightarrow> (string \<Rightarrow> string \<Rightarrow> int) \<Rightarrow> form \<Rightarrow> row list \<Rightarrow> row list" where
  "sortRows S L f rows = Array_sort (compareRows S L f) rows"

subsection \<open>The actions of the page\<close>

definition applyFilters ::
  "(string \<Rightarrow> jsnum) \<Rightarrow> (string \<Rightarrow> string \<Rightarrow> int) \<Rightarrow> screener \<Rightarrow> screener" where
  "applyFilters S L s =
     (let filtered = filter (passes S (form s)) (allRows s);
          sorted = sortRows S L (form s) filtered
      in s\<lparr>filteredRows := sorted, page := 1\<rparr>)"

definition resetFilters :: "screener \<Rightarrow> screener" where
  "resetFilters s = s\<lparr>form := defaultForm, filteredRows := allRows s, page := 1\<rparr>"

text \<open>The effect on \<open>screener.data\<close>, for data that is an array.\<close>

definition dataEffect :: "row list \<Rightarrow> screener \<Rightarrow> screener" where
  "dataEffect rows s = s\<lparr>allRows := rows, filteredRows := rows, page := 1\<rparr>"

text \<open>
  Refresh, followed by the answer of the request it starts, when that answer is an array:
  \<open>res.json()\<close> gives a new array, \<open>setData\<close> stores it, and the effect on
  \<open>screener.data\<close> runs with it.
\<close>

definition refreshLoaded :: "row list \<Rightarrow> screener \<Rightarrow> screener" where
  "refreshLoaded rows s = dataEffect rows (refreshOnly s)"

subsection \<open>Pagination\<close>

text \<open>
  \<open>Math.max(1, Math.ceil(filteredRows.length / pageSize) || 1)\<close>. With a page size of
  \<open>0\<close> the quotient is \<open>NaN\<close> for no rows, which \<open>|| 1\<close> replaces, and \<open>Infinity\<close>
  otherwise.
\<close>

definition pagesFor :: "nat \<Rightarrow> nat \<Rightarrow> enat" where
  "pagesFor n sz =
     (if sz = 0 then (if n = 0 then 1 else \<infinity>)
      else let c = nat \<lceil>(of_nat n :: rat) / of_nat sz\<rceil>
           in enat (max 1 (if c = 0 then 1 else c)))"

definition totalPages :: "screener \<Rightarrow> enat" where
  "totalPages s = pagesFor (length (filteredRows s)) (pageSize s)"

text \<open>\<open>setPage((prev) => Math.min(prev, totalPages))\<close>.\<close>

definition clampPage :: "screener \<Rightarrow> screener" where
  "clampPage s =
     s\<lparr>page := (case totalPages s of enat t \<Rightarrow> min (page s) t | \<infinity> \<Rightarrow> page s)\<rparr>"

text \<open>
  The effect with the dependency \<open>[totalPages]\<close>: after a render it runs when
  \<open>totalPages\<close> is not what it was at the previous render (\<open>None\<close> on the first one).
\<close>

definition pageEffect :: "enat option \<Rightarrow> screener \<Rightarrow> screener" where
  "pageEffect prev s = (if prev = Some (totalPages s) then s else clampPage s)"

section \<open>Sparklines\<close>

text \<open>
  \<open>buildNormPoints(values, w = 100, h = 40, pad = 4)\<close>. The values are finite numbers;
  \<open>spanOf\<close> is the source's \<open>max - min || 1\<close>.
  The result is the list of the points; the source prints each point as \<open>x,y\<close> and joins
  them with spaces, and the empty list stands for the empty string it returns when there is
  nothing to draw.
\<close>

definition spanOf :: "rat list \<Rightarrow> rat" where
  "spanOf vs =
     (let mn = Min (set vs); mx = Max (set vs)
      in if mx - mn = 0 then 1 else mx - mn)"

definition buildNormPoints ::
  "rat list option \<Rightarrow> rat \<Rightarrow> rat \<Rightarrow> rat \<Rightarrow> (rat \<times> rat) list" where
  "buildNormPoints values w h pad =
     (case values of
        None \<Rightarrow> []
      | Some vs \<Rightarrow>
          if length vs < 2 then []
          else
            let mn = Min (set vs)
            in map (\<lambda>(i, v).
                 let x = (of_nat i / of_nat (length vs - 1)) * w;
                     norm = (v - mn) / spanOf vs;
                     y = h - pad - norm * (h - pad * 2)
                 in (x, y)) (List.enumerate 0 vs))"

text \<open>The call with one argument, as the charts make it.\<close>

definition buildNormPoints1 :: "rat list option \<Rightarrow> (rat \<times> rat) list" where
  "buildNormPoints1 values = buildNormPoints values 100 40 4"

text \<open>
  The sparkline that \<open>Dashboard\<close> and \<open>PolyDashboard\<close> compute in line, on the values
  of a series that is not empty: a single value is drawn at \<open>x = 0\<close>.
\<close>

definition inlinePoints :: "rat list \<Rightarrow> (rat \<times> rat) list" where
  "inlinePoints vs =
     (if vs = [] then []
      else
        let mn = Min (set vs)
        in map (\<lambda>(i, v).
             let x = (if length vs = 1 then 0 else (of_nat i / of_nat (length vs - 1)) * 100);
                 norm = (v - mn) / spanOf vs;
                 y = 35 - norm * 25
             in (x, y)) (List.enumerate 0 vs))"

section \<open>The composite index\<close>

text \<open>
  \<open>Dashboard\<close> on the rows of \<open>/global-6h-deltas\<close>, which arrive newest first: the rows
  are reversed, the first of them gives the three baselines (\<open>|| 1\<close> on each), and every
  row gets the index \<open>100 * (relVol + relOi + relWide) / 3\<close>. The operator \<open>/\<close> converts
  both sides with \<open>Number\<close>.
\<close>

definition rowIndex :: "(string \<Rightarrow> jsnum) \<Rightarrow> jsval \<Rightarrow> jsval \<Rightarrow> jsval \<Rightarrow> row \<Rightarrow> jsnum" where
  "rowIndex S baseVol baseOi baseWide r =
     (let relVol = js_div (Number S (field r ''d_volume_6h'')) (Number S baseVol);
          relOi = js_div (Number S (field r ''d_oi_6h'')) (Number S baseOi);
          relWide = js_div (Number S (field r ''d_wide_6h'')) (Number S baseWide)
      in js_div (js_mul (Fin 100) (js_add (js_add relVol relOi) relWide)) (Fin 3))"

definition compositeSeries :: "(string \<Rightarrow> jsnum) \<Rightarrow> row list \<Rightarrow> (jsval \<times> jsnum) list" where
  "compositeSeries S rows =
     (case rev rows of
        [] \<Rightarrow> []
      | d0 # _ \<Rightarrow>
          let deltas = rev rows;
              baseVol = js_or (field d0 ''d_volume_6h'') (Num (Fin 1));
              baseOi = js_or (field d0 ''d_oi_6h'') (Num (Fin 1));
              baseWide = js_or (field d0 ''d_wide_6h'') (Num (Fin 1))
          in map (\<lambda>r. (field r ''snap_ts'', rowIndex S baseVol baseOi baseWide r)) deltas)"

text \<open>\<open>latestIndex\<close>: the index of the last element of the series, \<open>null\<close> without rows.\<close>

definition latestIndex :: "(string \<Rightarrow> jsnum) \<Rightarrow> row list \<Rightarrow> jsnum option" where
  "latestIndex S rows =
     (case compositeSeries S rows of [] \<Rightarrow> None | p # ps \<Rightarrow> Some (snd (last (p # ps))))"

section \<open>Notions of the specification, and hosts for the examples\<close>

text \<open>The middle of the padded band \<open>[pad, h - pad]\<close> of a canvas of height \<open>h\<close>.\<close>

definition midBand :: "rat \<Rightarrow> rat \<Rightarrow> rat" where
  "midBand h pad = (pad + (h - pad)) / 2"

text \<open>
  A row of \<open>/global-6h-deltas\<close> with a timestamp and three numeric deltas, and the
  baseline the specification gives for a numeric field: the field, or 1 when it is zero.
\<close>

definition deltaRow :: "jsval \<Rightarrow> rat \<Rightarrow> rat \<Rightarrow> rat \<Rightarrow> row" where
  "deltaRow ts v oi w =
     [''snap_ts'' \<mapsto> ts, ''d_volume_6h'' \<mapsto> Num (Fin v),
      ''d_oi_6h'' \<mapsto> Num (Fin oi), ''d_wide_6h'' \<mapsto> Num (Fin w)]"

definition baseline :: "rat \<Rightarrow> rat" where
  "baseline q = (if q = 0 then 1 else q)"

text \<open>
  The index the specification gives a row against the earliest row \<open>d0\<close>: each baseline
  is the field of \<open>d0\<close>, or 1 when that field is falsy; the index is
  100 times the sum of the three ratios, divided by 3.
\<close>

definition specBaseline :: "row \<Rightarrow> string \<Rightarrow> jsval" where
  "specBaseline d0 k = (if truthy (field d0 k) then field d0 k else Num (Fin 1))"

definition specRatio :: "(string \<Rightarrow> jsnum) \<Rightarrow> row \<Rightarrow> row \<Rightarrow> string \<Rightarrow> jsnum" where
  "specRatio S d0 r k = js_div (Number S (field r k)) (Number S (specBaseline d0 k))"

definition specIndex :: "(string \<Rightarrow> jsnum) \<Rightarrow> row \<Rightarrow> row \<Rightarrow> jsnum" where
  "specIndex S d0 r =
     js_div (js_mul (Fin 100)
       (js_add (js_add (specRatio S d0 r ''d_volume_6h'') (specRatio S d0 r ''d_oi_6h''))
          (specRatio S d0 r ''d_wide_6h''))) (Fin 3)"

text \<open>
  A threshold filter is configured when its form entry is set and is a number; a row
  meets it when its field, as a number, is at least the threshold.
\<close>

definition unset :: "jsval \<Rightarrow> bool" where
  "unset m = (m = Str [] \<or> m = Null \<or> m = Undefined)"

definition configured :: "(string \<Rightarrow> jsnum) \<Rightarrow> jsval \<Rightarrow> bool" where
  "configured S m = (\<not> unset m \<and> \<not> isNaN (Number S m))"

definition meets :: "(string \<Rightarrow> jsnum) \<Rightarrow> jsval \<Rightarrow> jsval \<Rightarrow> bool" where
  "meets S v m = js_ge (Number S v) (Number S m)"

text \<open>The five threshold filters of the page: the row field and the form entry of each.\<close>

definition thresholds :: "form \<Rightarrow> (string \<times> jsval) list" where
  "thresholds f =
     [(''volume'', minVolume f), (''open_interest'', minOpenInterest f),
      (''spread_ticks'', minSpread f), (''tradability_score'', minTradability f),
      (''churn_rate'', minChurn f)]"

text \<open>The value of a string of decimal digits: the inverse of \<open>decimal\<close>.\<close>

definition undecimal :: "string \<Rightarrow> nat" where
  "undecimal s = foldl (\<lambda>a c. 10 * a + (of_char c - 48)) 0 s"

text \<open>
  A string conversion for the examples. It is \<open>Number\<close> on the empty string, on strings of
  decimal digits, and on strings whose first character is neither a digit, a sign, a dot,
  white space nor \<open>I\<close>, which are not numeric; the host's conversion also reads signs,
  fractions, exponents, radix prefixes, \<open>Infinity\<close> and surrounding white space.
\<close>

definition isDigit :: "char \<Rightarrow> bool" where
  "isDigit c = (48 \<le> (of_char c :: nat) \<and> (of_char c :: nat) \<le> 57)"

definition digitsToNumber :: "string \<Rightarrow> jsnum" where
  "digitsToNumber s =
     (if s = [] then Fin 0
      else if list_all isDigit s then Fin (of_nat (undecimal s))
      else NaN)"

text \<open>
  A collation for the examples: the comparison by code units, which is what
  \<open>localeCompare\<close> gives on lower-case ASCII letters.
\<close>

fun codeUnitCompare :: "string \<Rightarrow> string \<Rightarrow> int" where
  "codeUnitCompare [] [] = 0"
| "codeUnitCompare [] (y # ys) = - 1"
| "codeUnitCompare (x # xs) [] = 1"
| "codeUnitCompare (x # xs) (y # ys) =
     (if (of_char x :: nat) < of_char y then - 1
      else if (of_char y :: nat) < of_char x then 1
      else codeUnitCompare xs ys)"

text \<open>A row with one field.\<close>

definition row1 :: "string \<Rightarrow> jsval \<Rightarrow> row" where
  "row1 k v = [k \<mapsto> v]"

text \<open>
  The key a row is sorted by when its field is compared as a number, and the order of two
  rows by that key in the direction of the form: in ascending order the key of the first
  is not greater than the key of the second, in descending order the other way round.
\<close>

definition sortKey :: "(string \<Rightarrow> jsnum) \<Rightarrow> form \<Rightarrow> row \<Rightarrow> jsnum" where
  "sortKey S f r = safe (Number S (field r (sortBy f)))"

definition inOrder :: "(string \<Rightarrow> jsnum) \<Rightarrow> form \<Rightarrow> row \<Rightarrow> row \<Rightarrow> bool" where
  "inOrder S f a b =
     (if sortDir f = ''asc'' then \<not> js_gt (sortKey S f a) (sortKey S f b)
      else \<not> js_gt (sortKey S f b) (sortKey S f a))"

section \<open>Properties of the fetch hook and of Refresh\<close>

lemma undecimal_decimal: "undecimal (decimal n) = n"
proof (induction n rule: decimal.induct)
  case (1 n)
  show ?case
  proof (cases "n < 10")
    case True
    then show ?thesis by (simp add: undecimal_def)
  next
    case False
    with 1 have ih: "undecimal (decimal (n div 10)) = n div 10" by simp
    have "n mod 10 < 10" by simp
    then have m: "(48 + n mod 10) mod 256 = 48 + n mod 10" by simp
    have "decimal n = decimal (n div 10) @ [char_of (48 + n mod 10)]"
      using False by (subst decimal.simps) simp
    then have "undecimal (decimal n) = 10 * undecimal (decimal (n div 10)) + n mod 10"
      using m by (simp add: undecimal_def)
    with ih show ?thesis by simp
  qed
qed

lemma decimal_inj: "decimal m = decimal n \<Longrightarrow> m = n"
  by (metis undecimal_decimal)

text \<open>Two states with different nonces make different requests.\<close>

lemma screenerRequest_refreshOnly: "screenerRequest (refreshOnly s) \<noteq> screenerRequest s"
  by (auto simp: screenerRequest_def screenerParams_def refreshOnly_def JSON_stringify_def
      jsonMember_def simp del: decimal.simps dest: decimal_inj)

lemma deps_render: "deps (render ident h) = Some ident"
  by (simp add: render_def effect_def)

lemma render_changed:
  "deps h \<noteq> Some ident \<Longrightarrow> render ident h = effect ident (cleanup h)"
  by (simp add: render_def)

lemma controllers_cleanup: "controllers (cleanup h) = controllers h"
  by (simp add: cleanup_def)

text \<open>
  The chain of an aborted request leaves \<open>data\<close> and \<open>error\<close> as they are, and sets
  \<open>loading\<close> to \<open>false\<close>.
\<close>

lemma settle_aborted:
  "k \<in> set (aborted h) \<Longrightarrow> settle k out h = h\<lparr>loading := False\<rparr>"
  by (simp add: settle_def delivered_def chain_def)

text \<open>
  Claim C1. If a second request is issued before the first settles, the late resolution of
  the first request changes nothing of \<open>{data, loading, error}\<close>, the loading flag
  included. The run below is the screener's hook: the first render, a render after Refresh
  (which aborts controller 0 and starts request 1), then request 0 settling. Before the
  settlement the hook shows \<open>loading = true\<close>; after it, with request 1 still in flight, it
  shows \<open>loading = false\<close>: \<open>finally\<close> runs for the aborted request too. \<open>data\<close> and
  \<open>error\<close> keep their values.
\<close>

theorem useApi_superseded_settle_clears_loading:
  "visible (run [Render (screenerRequest screener_init),
                 Render (screenerRequest (refreshOnly screener_init))] :: nat hook)
     = (None, True, None) \<and>
   visible (run [Render (screenerRequest screener_init),
                 Render (screenerRequest (refreshOnly screener_init)),
                 Settle 0 (Response 200 (Json 7))] :: nat hook)
     = (None, False, None)"
proof -
  let ?a = "screenerRequest screener_init"
  let ?b = "screenerRequest (refreshOnly screener_init)"
  have ne: "?b \<noteq> ?a" "?a \<noteq> ?b"
    using screenerRequest_refreshOnly [of screener_init] by auto
  have two: "run [Render ?a, Render ?b] =
      (\<lparr>data = None, loading = True, error = None, deps = Some ?b,
        controllers = 2, aborted = [0]\<rparr> :: nat hook)"
    using ne by (simp add: run_def render_def effect_def cleanup_def useApi_init_def)
  have three: "run [Render ?a, Render ?b, Settle 0 (Response 200 (Json 7))] =
      settle 0 (Response 200 (Json 7)) (run [Render ?a, Render ?b] :: nat hook)"
    by (simp add: run_def)
  show ?thesis
    unfolding three unfolding two
    by (simp add: visible_def settle_def delivered_def chain_def)
qed

text \<open>The hook of the page after a render, a Refresh and the render that follows it.\<close>

lemma run_refresh:
  "run [Render (screenerRequest s), Render (screenerRequest (refreshOnly s))] =
     (\<lparr>data = None, loading = True, error = None,
       deps = Some (screenerRequest (refreshOnly s)), controllers = 2, aborted = [0]\<rparr>
      :: row list hook)"
proof -
  have "screenerRequest (refreshOnly s) \<noteq> screenerRequest s"
    by (rule screenerRequest_refreshOnly)
  then have "screenerRequest s \<noteq> screenerRequest (refreshOnly s)" by auto
  then show ?thesis
    by (simp add: run_def render_def effect_def cleanup_def useApi_init_def)
qed

lemma run_refresh_answer:
  "visible (run [Render (screenerRequest s), Render (screenerRequest (refreshOnly s)),
                 Settle 1 (Response 200 (Json rows))] :: row list hook)
     = (Some rows, False, None)"
proof -
  have "run [Render (screenerRequest s), Render (screenerRequest (refreshOnly s)),
             Settle 1 (Response 200 (Json rows))] =
      settle 1 (Response 200 (Json rows))
        (run [Render (screenerRequest s), Render (screenerRequest (refreshOnly s))]
          :: row list hook)"
    by (simp add: run_def)
  then show ?thesis
    unfolding run_refresh
    by (simp add: visible_def settle_def delivered_def chain_def ok_def)
qed

text \<open>
  Claim C2, as the code has it. The click on Refresh increments the nonce and changes
  nothing else of the page's state: the form (filters and sort), the page, the page size
  and the rows stay. The request of the page is then a different one, so the hook, rendered
  with it after a render with the old one, runs its effect again: it creates one more
  controller and shows \<open>loading = true\<close>. When the new request is answered with an array,
  the hook holds that array as its data, and the effect on the data keeps the form and the
  page size, but shows the new rows unfiltered and unsorted and sets the page to 1: the
  page and the filter and sort that were applied to the rows do not survive a refresh that
  succeeds. See the counterexample for the claim as it was stated.
\<close>

theorem refreshOnly_frame:
  "form (refreshOnly s) = form s \<and>
   page (refreshOnly s) = page s \<and>
   pageSize (refreshOnly s) = pageSize s \<and>
   filteredRows (refreshOnly s) = filteredRows s \<and>
   allRows (refreshOnly s) = allRows s \<and>
   refreshNonce (refreshOnly s) = refreshNonce s + 1 \<and>
   screenerRequest (refreshOnly s) \<noteq> screenerRequest s \<and>
   controllers (render (screenerRequest (refreshOnly s)) (render (screenerRequest s) h))
     = controllers (render (screenerRequest s) h) + 1 \<and>
   loading (render (screenerRequest (refreshOnly s)) (render (screenerRequest s) h)) \<and>
   visible (run [Render (screenerRequest s), Render (screenerRequest (refreshOnly s)),
                 Settle 1 (Response 200 (Json rows))] :: row list hook)
     = (Some rows, False, None) \<and>
   form (refreshLoaded rows s) = form s \<and>
   pageSize (refreshLoaded rows s) = pageSize s \<and>
   refreshNonce (refreshLoaded rows s) = refreshNonce s + 1 \<and>
   allRows (refreshLoaded rows s) = rows \<and>
   filteredRows (refreshLoaded rows s) = rows \<and>
   page (refreshLoaded rows s) = 1"
proof -
  let ?old = "screenerRequest s" and ?new = "screenerRequest (refreshOnly s)"
  have frame: "form (refreshOnly s) = form s \<and> page (refreshOnly s) = page s \<and>
      pageSize (refreshOnly s) = pageSize s \<and> filteredRows (refreshOnly s) = filteredRows s \<and>
      allRows (refreshOnly s) = allRows s \<and> refreshNonce (refreshOnly s) = refreshNonce s + 1"
    by (simp add: refreshOnly_def)
  have ne: "?new \<noteq> ?old" by (rule screenerRequest_refreshOnly)
  have "deps (render ?old h) \<noteq> Some ?new" using ne by (simp add: deps_render)
  then have r: "render ?new (render ?old h) = effect ?new (cleanup (render ?old h))"
    by (rule render_changed)
  have c: "controllers (render ?new (render ?old h)) = controllers (render ?old h) + 1"
    by (simp add: r effect_def controllers_cleanup)
  have l: "loading (render ?new (render ?old h))" by (simp add: r effect_def)
  have loaded: "form (refreshLoaded rows s) = form s \<and>
      pageSize (refreshLoaded rows s) = pageSize s \<and>
      refreshNonce (refreshLoaded rows s) = refreshNonce s + 1 \<and>
      allRows (refreshLoaded rows s) = rows \<and>
      filteredRows (refreshLoaded rows s) = rows \<and>
      page (refreshLoaded rows s) = 1"
    by (simp add: refreshLoaded_def dataEffect_def refreshOnly_def)
  from frame ne c l run_refresh_answer [of s rows] loaded show ?thesis by simp
qed

text \<open>
  The claim as it was stated fails on two states of the page. On page 2 of 30 rows, a
  refresh answered with the same 30 rows leaves the page at 1. With the filter
  \<open>minVolume = '60'\<close> applied to three rows, of which it keeps one, a refresh answered
  with the same three rows shows all three.
\<close>

theorem refresh_alters_page_and_rows:
  "page (screener_init\<lparr>allRows := replicate 30 (row1 ''volume'' (Num (Fin 100))),
                        filteredRows := replicate 30 (row1 ''volume'' (Num (Fin 100))),
                        page := 2\<rparr>) = 2 \<and>
   page (refreshLoaded (replicate 30 (row1 ''volume'' (Num (Fin 100))))
          (screener_init\<lparr>allRows := replicate 30 (row1 ''volume'' (Num (Fin 100))),
                          filteredRows := replicate 30 (row1 ''volume'' (Num (Fin 100))),
                          page := 2\<rparr>)) = 1 \<and>
   filteredRows (applyFilters digitsToNumber codeUnitCompare
       (screener_init\<lparr>form := defaultForm\<lparr>minVolume := Str ''60''\<rparr>,
          allRows := [row1 ''volume'' (Num (Fin 100)), row1 ''volume'' (Num (Fin 50)),
                      row1 ''volume'' (Str ''bad'')]\<rparr>)) =
     [row1 ''volume'' (Num (Fin 100))] \<and>
   filteredRows (refreshLoaded
       [row1 ''volume'' (Num (Fin 100)), row1 ''volume'' (Num (Fin 50)),
        row1 ''volume'' (Str ''bad'')]
       (applyFilters digitsToNumber codeUnitCompare
         (screener_init\<lparr>form := defaultForm\<lparr>minVolume := Str ''60''\<rparr>,
            allRows := [row1 ''volume'' (Num (Fin 100)), row1 ''volume'' (Num (Fin 50)),
                        row1 ''volume'' (Str ''bad'')]\<rparr>))) =
     [row1 ''volume'' (Num (Fin 100)), row1 ''volume'' (Num (Fin 50)),
      row1 ''volume'' (Str ''bad'')]"
proof -
  have d: "digitsToNumber ''60'' = Fin 60" "digitsToNumber ''bad'' = NaN"
    by (simp_all add: digitsToNumber_def isDigit_def undecimal_def)
  have kept: "filteredRows (applyFilters digitsToNumber codeUnitCompare
       (screener_init\<lparr>form := defaultForm\<lparr>minVolume := Str ''60''\<rparr>,
          allRows := [row1 ''volume'' (Num (Fin 100)), row1 ''volume'' (Num (Fin 50)),
                      row1 ''volume'' (Str ''bad'')]\<rparr>)) =
     [row1 ''volume'' (Num (Fin 100))]"
    using d
    by (simp add: applyFilters_def sortRows_def passes_def passMin_def defaultForm_def
        screener_init_def row1_def field_def Let_def)
  show ?thesis
    using kept by (simp add: refreshLoaded_def dataEffect_def screener_init_def)
qed

section \<open>Properties of the sparklines\<close>

lemma spanOf_eq:
  "spanOf vs = (if Max (set vs) = Min (set vs) then 1 else Max (set vs) - Min (set vs))"
  by (simp add: spanOf_def Let_def)

lemma spanOf_nonzero: "spanOf vs \<noteq> 0"
  by (simp add: spanOf_eq)

lemma length_buildNormPoints:
  "2 \<le> length vs \<Longrightarrow> length (buildNormPoints (Some vs) w h pad) = length vs"
  by (simp add: buildNormPoints_def Let_def)

lemma nth_buildNormPoints:
  assumes "2 \<le> length vs" and "i < length vs"
  shows "buildNormPoints (Some vs) w h pad ! i =
     (of_nat i / of_nat (length vs - 1) * w,
      h - pad - (vs ! i - Min (set vs)) / spanOf vs * (h - 2 * pad))"
  using assms by (simp add: buildNormPoints_def Let_def nth_enumerate_eq)

text \<open>The sparkline computed in line by the dashboards draws a single value as one point.\<close>

lemma inlinePoints_single: "inlinePoints [v] = [(0, 35)]"
  by (simp add: inlinePoints_def spanOf_eq enumerate_eq_zip)

text \<open>
  Claim C3. For a sequence of fewer than 2 values (and for no sequence at all)
  \<open>buildNormPoints\<close> returns no point, whatever the canvas.
\<close>

theorem buildNormPoints_short:
  assumes "length vs < 2"
  shows "buildNormPoints (Some vs) w h pad = [] \<and> buildNormPoints1 (Some vs) = [] \<and>
     buildNormPoints None w h pad = []"
  using assms by (simp add: buildNormPoints_def buildNormPoints1_def)

theorem buildNormPoints_short_witness:
  "length [5::rat] < 2 \<and> buildNormPoints1 (Some [5]) = [] \<and> buildNormPoints1 (Some []) = []"
  using buildNormPoints_short [of "[5]" 100 40 4] buildNormPoints_short [of "[]" 100 40 4]
  by simp

lemma flat_Min_Max:
  assumes "vs \<noteq> []" and "\<forall>v\<in>set vs. v = c"
  shows "Min (set vs) = c \<and> Max (set vs) = c"
proof -
  from assms have "set vs = {c}" by (cases vs) auto
  then show ?thesis by simp
qed

text \<open>
  Claim C4, as the code has it. For a flat series of at least 2 values the span is 1, not
  0, the output has one point for each value, and all points have the same \<open>y\<close>, which
  is \<open>h - pad\<close>: the lower edge of the padded band (36 on the default canvas), where the
  minimum of any series is drawn. The middle of the band, 20 on the default canvas, is not
  where they are: see the counterexample.
\<close>

theorem buildNormPoints_flat:
  assumes "2 \<le> length vs" and "\<forall>v\<in>set vs. v = c"
  shows "spanOf vs = 1 \<and>
     length (buildNormPoints (Some vs) w h pad) = length vs \<and>
     (\<forall>p\<in>set (buildNormPoints (Some vs) w h pad). snd p = h - pad) \<and>
     (\<forall>p\<in>set (buildNormPoints1 (Some vs)). snd p = 36)"
proof -
  from assms(1) have ne: "vs \<noteq> []" by auto
  have mm: "Min (set vs) = c" "Max (set vs) = c"
    using flat_Min_Max [OF ne assms(2)] by simp_all
  have sp: "spanOf vs = 1" by (simp add: spanOf_eq mm)
  have y: "snd (buildNormPoints (Some vs) w' h' pad' ! i) = h' - pad'"
    if "i < length vs" for i w' h' pad'
    using nth_buildNormPoints [OF assms(1) that, of w' h' pad'] assms(2) that
    by (simp add: mm)
  have all: "\<forall>p\<in>set (buildNormPoints (Some vs) w' h' pad'). snd p = h' - pad'" for w' h' pad'
  proof
    fix p assume "p \<in> set (buildNormPoints (Some vs) w' h' pad')"
    then obtain i where "i < length (buildNormPoints (Some vs) w' h' pad')"
      and "buildNormPoints (Some vs) w' h' pad' ! i = p"
      by (auto simp: in_set_conv_nth)
    then show "snd p = h' - pad'"
      using y [of i w' h' pad'] length_buildNormPoints [OF assms(1), of w' h' pad'] by auto
  qed
  from sp all [of w h pad] all [of 100 40 4] length_buildNormPoints [OF assms(1), of w h pad]
  show ?thesis by (simp add: buildNormPoints1_def)
qed

theorem buildNormPoints_flat_witness:
  "2 \<le> length [5, 5, 5 :: rat] \<and> spanOf [5, 5, 5] = 1 \<and>
   buildNormPoints1 (Some [5, 5, 5]) = [(0, 36), (50, 36), (100, 36)]"
proof -
  have "buildNormPoints1 (Some [5, 5, 5]) = [(0, 36), (50, 36), (100, 36)]"
    by (simp add: buildNormPoints1_def buildNormPoints_def spanOf_eq enumerate_eq_zip upt_rec)
  then show ?thesis using buildNormPoints_flat [of "[5, 5, 5]" 5 100 40 4] by simp
qed

theorem buildNormPoints_flat_not_midBand:
  "\<not> (\<forall>p\<in>set (buildNormPoints1 (Some [5, 5])). snd p = midBand 40 4)"
  by (simp add: buildNormPoints1_def buildNormPoints_def spanOf_eq enumerate_eq_zip upt_rec
      midBand_def)

text \<open>
  Claim C5. For \<open>n \<ge> 2\<close> values the output has \<open>n\<close> points, and the point of index
  \<open>i\<close> is \<open>x = i / (n - 1) * w\<close>, \<open>y = h - pad - (value - min) / span * (h - 2 * pad)\<close>,
  where \<open>span\<close> is \<open>max - min\<close>, or 1 when that is 0; the call with one argument uses
  \<open>w = 100\<close>, \<open>h = 40\<close>, \<open>pad = 4\<close>.
\<close>

theorem buildNormPoints_formula:
  assumes "2 \<le> length vs" and "i < length vs"
  shows "length (buildNormPoints (Some vs) w h pad) = length vs \<and>
     buildNormPoints (Some vs) w h pad ! i =
       (of_nat i / of_nat (length vs - 1) * w,
        h - pad - (vs ! i - Min (set vs)) / spanOf vs * (h - 2 * pad)) \<and>
     buildNormPoints1 (Some vs) ! i =
       (of_nat i / of_nat (length vs - 1) * 100,
        40 - 4 - (vs ! i - Min (set vs)) / spanOf vs * (40 - 2 * 4)) \<and>
     spanOf vs = (if Max (set vs) = Min (set vs) then 1 else Max (set vs) - Min (set vs))"
  using assms length_buildNormPoints [of vs w h pad] nth_buildNormPoints [of vs i] spanOf_eq [of vs]
  by (simp add: buildNormPoints1_def)

theorem buildNormPoints_formula_witness:
  "2 \<le> length [1, 3, 2 :: rat] \<and> (1::nat) < length [1, 3, 2 :: rat] \<and>
   spanOf [1, 3, 2] = 2 \<and>
   buildNormPoints1 (Some [1, 3, 2]) ! 1 = (50, 4) \<and>
   length (buildNormPoints1 (Some [1, 3, 2])) = 3"
  using buildNormPoints_formula [of "[1, 3, 2]" 1 100 40 4]
  by (simp add: buildNormPoints1_def)

section \<open>Properties of the composite index\<close>

lemma rowIndex_numeric:
  "bv \<noteq> 0 \<Longrightarrow> bo \<noteq> 0 \<Longrightarrow> bw \<noteq> 0 \<Longrightarrow>
   rowIndex S (Num (Fin bv)) (Num (Fin bo)) (Num (Fin bw)) (deltaRow ts v oi w) =
     Fin (100 * (v / bv + oi / bo + w / bw) / 3)"
  by (simp add: rowIndex_def deltaRow_def field_def)

lemma js_or_numeric: "js_or (Num (Fin q)) (Num (Fin 1)) = Num (Fin (baseline q))"
  by (simp add: js_or_def baseline_def)

lemma baseline_nonzero: "baseline q \<noteq> 0"
  by (simp add: baseline_def)

lemma field_deltaRow:
  "field (deltaRow ts v oi w) ''snap_ts'' = ts"
  "field (deltaRow ts v oi w) ''d_volume_6h'' = Num (Fin v)"
  "field (deltaRow ts v oi w) ''d_oi_6h'' = Num (Fin oi)"
  "field (deltaRow ts v oi w) ''d_wide_6h'' = Num (Fin w)"
  by (simp_all add: deltaRow_def field_def)

text \<open>The last row of the input, the earliest one, is the baseline of every row.\<close>

lemma compositeSeries_snoc:
  "compositeSeries S (rows @ [d0]) =
     map (\<lambda>r. (field r ''snap_ts'', specIndex S d0 r)) (d0 # rev rows)"
  by (simp add: compositeSeries_def rowIndex_def specIndex_def specRatio_def specBaseline_def
      js_or_def Let_def)

lemma compositeSeries_numeric:
  "compositeSeries S (rev (map (\<lambda>(t, v, oi, w). deltaRow t v oi w) ((t0, v0, o0, w0) # xs))) =
     map (\<lambda>(t, v, oi, w).
           (t, Fin (100 * (v / baseline v0 + oi / baseline o0 + w / baseline w0) / 3)))
       ((t0, v0, o0, w0) # xs)"
  by (simp add: compositeSeries_def Let_def field_deltaRow js_or_numeric rowIndex_numeric
      baseline_nonzero split_def)

lemma compositeSeries_example:
  "compositeSeries S [deltaRow t2 4 8 12, deltaRow t1 2 4 6] = [(t1, Fin 100), (t2, Fin 200)]"
  using compositeSeries_numeric [of S t1 2 4 6 "[(t2, 4, 8, 12)]"]
  by (simp add: baseline_def)

lemma compositeSeries_empty: "compositeSeries S [] = [] \<and> latestIndex S [] = None"
  by (simp add: compositeSeries_def latestIndex_def)

text \<open>
  Claim C6. A non-empty input, newest first, is \<open>rows @ [d0]\<close> with \<open>d0\<close> the earliest
  row. The series lists the rows earliest first, and the index of each row is 100 times the
  sum of its three ratios against the fields of \<open>d0\<close>, divided by 3, a falsy field of
  \<open>d0\<close> replaced by 1. For rows with numeric fields this is the rational
  \<open>100 * (v / bv + oi / bo + w / bw) / 3\<close>, a baseline of 0 replaced by 1. With the rows
  \<open>(2, 4, 6)\<close> and \<open>(4, 8, 12)\<close>, earliest first, the indexes are 100 and 200.
\<close>

theorem compositeSeries_index:
  "compositeSeries S (rows @ [d0]) =
     map (\<lambda>r. (field r ''snap_ts'', specIndex S d0 r)) (d0 # rev rows) \<and>
   compositeSeries S (rev (map (\<lambda>(t, v, oi, w). deltaRow t v oi w) ((t0, v0, o0, w0) # xs))) =
     map (\<lambda>(t, v, oi, w).
           (t, Fin (100 * (v / baseline v0 + oi / baseline o0 + w / baseline w0) / 3)))
       ((t0, v0, o0, w0) # xs) \<and>
   compositeSeries S [deltaRow t2 4 8 12, deltaRow t1 2 4 6] = [(t1, Fin 100), (t2, Fin 200)]"
  using compositeSeries_snoc [of S rows d0] compositeSeries_numeric [of S t0 v0 o0 w0 xs]
    compositeSeries_example [of S t2 t1]
  by blast

section \<open>Properties of the screener\<close>

subsection \<open>Filtering\<close>

lemma passMin_iff: "passMin S v m = (configured S m \<longrightarrow> meets S v m)"
  by (cases "Number S v") (auto simp: passMin_def configured_def meets_def unset_def Let_def)

lemma passes_iff:
  "passes S f r = (\<forall>(k, m)\<in>set (thresholds f). configured S m \<longrightarrow> meets S (field r k) m)"
  by (simp add: passes_def thresholds_def passMin_iff)

lemma mset_insertSorted: "mset (insertSorted cmp x xs) = add_mset x (mset xs)"
  by (induction xs) auto

lemma mset_Array_sort: "mset (Array_sort cmp xs) = mset xs"
  by (induction xs) (auto simp: mset_insertSorted)

lemma mset_applyFilters:
  "mset (filteredRows (applyFilters S L s)) = filter_mset (passes S (form s)) (mset (allRows s))"
  by (simp add: applyFilters_def sortRows_def mset_Array_sort Let_def)

lemma passMin_NaN_value: "configured S m \<Longrightarrow> isNaN (Number S v) \<Longrightarrow> \<not> passMin S v m"
  by (cases "Number S v"; cases "Number S m") (auto simp: passMin_iff meets_def)

lemma passMin_unset: "unset m \<Longrightarrow> passMin S v m"
  by (simp add: passMin_iff configured_def)

lemma filter_example:
  assumes "S ''60'' = Fin 60" and "S ''bad'' = NaN"
  shows "filteredRows (applyFilters S L
       (screener_init\<lparr>form := defaultForm\<lparr>minVolume := Str ''60''\<rparr>,
          allRows := [row1 ''volume'' (Num (Fin 100)), row1 ''volume'' (Num (Fin 50)),
                      row1 ''volume'' (Str ''bad'')]\<rparr>)) =
     [row1 ''volume'' (Num (Fin 100))]"
  using assms
  by (simp add: applyFilters_def sortRows_def passes_def passMin_def defaultForm_def
      screener_init_def row1_def field_def Let_def)

lemma digitsToNumber_60: "digitsToNumber ''60'' = Fin 60"
  by (simp add: digitsToNumber_def isDigit_def undecimal_def)

lemma digitsToNumber_bad: "digitsToNumber ''bad'' = NaN"
  by (simp add: digitsToNumber_def isDigit_def)

lemma digitsToNumber_abc: "digitsToNumber ''abc'' = NaN"
  by (simp add: digitsToNumber_def isDigit_def)

text \<open>
  Claim C7. \<open>passMin\<close> holds iff the threshold, when it is configured, is met by the value
  as a number; a value that coerces to \<open>NaN\<close> fails a configured threshold, and an unset
  entry passes every value. \<open>applyFilters\<close> keeps exactly the rows that meet every
  configured threshold of the five, each as often as it occurs, and shows page 1. With the
  rows \<open>{volume: 100}\<close>, \<open>{volume: 50}\<close>, \<open>{volume: 'bad'}\<close> and the entry \<open>'60'\<close> for
  \<open>minVolume\<close>, only \<open>{volume: 100}\<close> is kept, for every string conversion that reads
  \<open>'60'\<close> as 60 and \<open>'bad'\<close> as \<open>NaN\<close>.
\<close>

theorem applyFilters_thresholds:
  "passMin S v m = (configured S m \<longrightarrow> meets S v m) \<and>
   (configured S m \<and> isNaN (Number S v) \<longrightarrow> \<not> passMin S v m) \<and>
   (unset m \<longrightarrow> passMin S v m) \<and>
   mset (filteredRows (applyFilters S L s)) =
     filter_mset
       (\<lambda>r. \<forall>(k, t)\<in>set (thresholds (form s)). configured S t \<longrightarrow> meets S (field r k) t)
       (mset (allRows s)) \<and>
   page (applyFilters S L s) = 1 \<and>
   (S ''60'' = Fin 60 \<and> S ''bad'' = NaN \<longrightarrow>
     filteredRows (applyFilters S L
       (screener_init\<lparr>form := defaultForm\<lparr>minVolume := Str ''60''\<rparr>,
          allRows := [row1 ''volume'' (Num (Fin 100)), row1 ''volume'' (Num (Fin 50)),
                      row1 ''volume'' (Str ''bad'')]\<rparr>)) =
     [row1 ''volume'' (Num (Fin 100))])"
proof -
  have a: "passMin S v m = (configured S m \<longrightarrow> meets S v m)" by (rule passMin_iff)
  have b: "configured S m \<and> isNaN (Number S v) \<longrightarrow> \<not> passMin S v m"
    using passMin_NaN_value by blast
  have c: "unset m \<longrightarrow> passMin S v m" using passMin_unset by blast
  have "passes S (form s) =
      (\<lambda>r. \<forall>(k, t)\<in>set (thresholds (form s)). configured S t \<longrightarrow> meets S (field r k) t)"
    by (rule ext) (rule passes_iff)
  then have d: "mset (filteredRows (applyFilters S L s)) =
     filter_mset
       (\<lambda>r. \<forall>(k, t)\<in>set (thresholds (form s)). configured S t \<longrightarrow> meets S (field r k) t)
       (mset (allRows s))"
    using mset_applyFilters [of S L s] by simp
  have e: "page (applyFilters S L s) = 1" by (simp add: applyFilters_def Let_def)
  from a b c d e filter_example [of S L] show ?thesis by blast
qed

theorem applyFilters_thresholds_witness:
  "digitsToNumber ''60'' = Fin 60 \<and> digitsToNumber ''bad'' = NaN \<and>
   configured digitsToNumber (Str ''60'') \<and>
   meets digitsToNumber (Num (Fin 100)) (Str ''60'') \<and>
   passMin digitsToNumber (Num (Fin 100)) (Str ''60'') \<and>
   isNaN (Number digitsToNumber (Str ''bad'')) \<and>
   \<not> passMin digitsToNumber (Str ''bad'') (Str ''60'') \<and>
   unset (Str []) \<and> passMin digitsToNumber (Str ''bad'') (Str []) \<and>
   filteredRows (applyFilters digitsToNumber codeUnitCompare
       (screener_init\<lparr>form := defaultForm\<lparr>minVolume := Str ''60''\<rparr>,
          allRows := [row1 ''volume'' (Num (Fin 100)), row1 ''volume'' (Num (Fin 50)),
                      row1 ''volume'' (Str ''bad'')]\<rparr>)) =
     [row1 ''volume'' (Num (Fin 100))]"
  using applyFilters_thresholds [of digitsToNumber "Num (Fin 100)" "Str ''60''" codeUnitCompare]
    applyFilters_thresholds [of digitsToNumber "Str ''bad''" "Str ''60''" codeUnitCompare]
    applyFilters_thresholds [of digitsToNumber "Str ''bad''" "Str []" codeUnitCompare]
  by (simp add: digitsToNumber_60 digitsToNumber_bad configured_def unset_def meets_def)

text \<open>
  Claim C10. A threshold that \<open>Number\<close> turns into \<open>NaN\<close> passes every value, as an
  unset one does: \<open>passMin\<close> returns \<open>true\<close> before it looks at the value.
\<close>

theorem passMin_unparseable_threshold:
  assumes "isNaN (Number S m)"
  shows "passMin S v m"
  using assms by (simp add: passMin_def Let_def)

theorem passMin_unparseable_threshold_witness:
  "Str ''abc'' \<noteq> Str [] \<and> isNaN (Number digitsToNumber (Str ''abc'')) \<and>
   passMin digitsToNumber (Num (Fin 5)) (Str ''abc'') \<and>
   passMin digitsToNumber (Str ''bad'') (Str ''abc'')"
  using passMin_unparseable_threshold [of digitsToNumber "Str ''abc''" "Num (Fin 5)"]
    passMin_unparseable_threshold [of digitsToNumber "Str ''abc''" "Str ''bad''"]
  by (simp add: digitsToNumber_abc)

subsection \<open>Sorting\<close>

lemma compareRows_strings:
  "field a (sortBy f) = Str x \<Longrightarrow> field b (sortBy f) = Str y \<Longrightarrow>
   compareRows S L f a b = Fin (of_int (if sortDir f = ''asc'' then L x y else L y x))"
  by (simp add: compareRows_def)

lemma compareRows_numbers:
  "\<not> (isString (field a (sortBy f)) \<and> isString (field b (sortBy f))) \<Longrightarrow>
   compareRows S L f a b =
     (if sortDir f = ''asc''
      then js_sub (safe (Number S (field a (sortBy f)))) (safe (Number S (field b (sortBy f))))
      else js_sub (safe (Number S (field b (sortBy f)))) (safe (Number S (field a (sortBy f)))))"
  by (cases "field a (sortBy f)"; cases "field b (sortBy f)")
     (simp_all add: compareRows_def Let_def)

lemma sortCompare_sub:
  "cmp x y = js_sub (safe m) (safe n) \<Longrightarrow>
   js_gt (sortCompare cmp x y) (Fin 0) = js_gt (safe m) (safe n)"
  by (cases m; cases n) (simp_all add: sortCompare_def safe_def js_sub_def)

lemma safe_total: "js_gt (safe m) (safe n) \<Longrightarrow> \<not> js_gt (safe n) (safe m)"
  by (cases m; cases n) (simp_all add: safe_def)

lemma safe_trans:
  "\<not> js_gt (safe m) (safe n) \<Longrightarrow> \<not> js_gt (safe n) (safe p) \<Longrightarrow> \<not> js_gt (safe m) (safe p)"
  by (cases m; cases n; cases p) (simp_all add: safe_def)

lemma inOrder_total: "\<not> inOrder S f a b \<Longrightarrow> inOrder S f b a"
  using safe_total by (auto simp: inOrder_def sortKey_def)

lemma inOrder_trans: "inOrder S f a b \<Longrightarrow> inOrder S f b c \<Longrightarrow> inOrder S f a c"
  using safe_trans by (auto simp: inOrder_def sortKey_def split: if_splits)

lemma sortCompare_inOrder:
  assumes "\<not> (isString (field a (sortBy f)) \<and> isString (field b (sortBy f)))"
  shows "js_gt (sortCompare (compareRows S L f) a b) (Fin 0) = (\<not> inOrder S f a b)"
proof (cases "sortDir f = ''asc''")
  case True
  then have "compareRows S L f a b =
      js_sub (safe (Number S (field a (sortBy f)))) (safe (Number S (field b (sortBy f))))"
    using compareRows_numbers [OF assms] by simp
  then show ?thesis using True by (simp add: sortCompare_sub inOrder_def sortKey_def)
next
  case False
  then have "compareRows S L f a b =
      js_sub (safe (Number S (field b (sortBy f)))) (safe (Number S (field a (sortBy f))))"
    using compareRows_numbers [OF assms] by simp
  then show ?thesis using False by (simp add: sortCompare_sub inOrder_def sortKey_def)
qed

lemma set_insertSorted: "set (insertSorted cmp x xs) = insert x (set xs)"
  by (induction xs) auto

lemma set_Array_sort: "set (Array_sort cmp xs) = set xs"
  by (induction xs) (auto simp: set_insertSorted)

lemma sorted_insertSorted:
  assumes tot: "\<And>a b. \<not> le a b \<Longrightarrow> le b a"
    and trans: "\<And>a b c. le a b \<Longrightarrow> le b c \<Longrightarrow> le a c"
  shows "(\<forall>y\<in>set xs. js_gt (sortCompare cmp x y) (Fin 0) = (\<not> le x y)) \<Longrightarrow>
     sorted_wrt le xs \<Longrightarrow> sorted_wrt le (insertSorted cmp x xs)"
proof (induction xs)
  case Nil
  show ?case by simp
next
  case (Cons y ys)
  have agree_y: "js_gt (sortCompare cmp x y) (Fin 0) = (\<not> le x y)"
    using Cons.prems(1) by simp
  have agree_ys: "\<forall>z\<in>set ys. js_gt (sortCompare cmp x z) (Fin 0) = (\<not> le x z)"
    using Cons.prems(1) by simp
  have y_ys: "\<forall>z\<in>set ys. le y z" and s_ys: "sorted_wrt le ys"
    using Cons.prems(2) by simp_all
  show ?case
  proof (cases "js_gt (sortCompare cmp x y) (Fin 0)")
    case True
    with agree_y have "\<not> le x y" by simp
    then have yx: "le y x" by (rule tot)
    have ih: "sorted_wrt le (insertSorted cmp x ys)"
      using Cons.IH [OF agree_ys s_ys] .
    have "\<forall>z\<in>set (insertSorted cmp x ys). le y z"
      using yx y_ys by (simp add: set_insertSorted)
    with ih have "sorted_wrt le (y # insertSorted cmp x ys)" by simp
    with True show ?thesis by simp
  next
    case False
    with agree_y have xy: "le x y" by simp
    have "\<forall>z\<in>set ys. le x z"
    proof
      fix z assume "z \<in> set ys"
      with y_ys have "le y z" by simp
      with xy show "le x z" by (rule trans)
    qed
    with xy y_ys s_ys have "sorted_wrt le (x # y # ys)" by simp
    with False show ?thesis by simp
  qed
qed

lemma sorted_Array_sort:
  assumes tot: "\<And>a b. \<not> le a b \<Longrightarrow> le b a"
    and trans: "\<And>a b c. le a b \<Longrightarrow> le b c \<Longrightarrow> le a c"
  shows "(\<forall>x\<in>set xs. \<forall>y\<in>set xs. js_gt (sortCompare cmp x y) (Fin 0) = (\<not> le x y)) \<Longrightarrow>
     sorted_wrt le (Array_sort cmp xs)"
proof (induction xs)
  case Nil
  show ?case by simp
next
  case (Cons x xs)
  have "\<forall>a\<in>set xs. \<forall>b\<in>set xs. js_gt (sortCompare cmp a b) (Fin 0) = (\<not> le a b)"
    using Cons.prems by simp
  then have ih: "sorted_wrt le (Array_sort cmp xs)" by (rule Cons.IH)
  have ag: "\<forall>y\<in>set (Array_sort cmp xs). js_gt (sortCompare cmp x y) (Fin 0) = (\<not> le x y)"
    using Cons.prems by (simp add: set_Array_sort)
  have "sorted_wrt le (insertSorted cmp x (Array_sort cmp xs))"
  proof (rule sorted_insertSorted)
    show "\<And>a b. \<not> le a b \<Longrightarrow> le b a" by (rule tot)
    show "\<And>a b c. le a b \<Longrightarrow> le b c \<Longrightarrow> le a c" by (rule trans)
    show "\<forall>y\<in>set (Array_sort cmp xs). js_gt (sortCompare cmp x y) (Fin 0) = (\<not> le x y)"
      by (rule ag)
    show "sorted_wrt le (Array_sort cmp xs)" by (rule ih)
  qed
  then show ?case by simp
qed

lemma sortRows_sorted:
  assumes "\<forall>r\<in>set rows. \<not> isString (field r (sortBy f))"
  shows "sorted_wrt (inOrder S f) (sortRows S L f rows)"
  unfolding sortRows_def
proof (rule sorted_Array_sort)
  show "\<And>a b. \<not> inOrder S f a b \<Longrightarrow> inOrder S f b a" by (rule inOrder_total)
  show "\<And>a b c. inOrder S f a b \<Longrightarrow> inOrder S f b c \<Longrightarrow> inOrder S f a c"
    by (rule inOrder_trans)
  show "\<forall>x\<in>set rows. \<forall>y\<in>set rows.
      js_gt (sortCompare (compareRows S L f) x y) (Fin 0) = (\<not> inOrder S f x y)"
    using assms by (simp add: sortCompare_inOrder)
qed

lemma safe_cases: "safe n = (if isFinite n then n else NegInf)"
  by (simp add: safe_def)

lemma low_minus_finite: "\<not> isFinite m \<Longrightarrow> isFinite n \<Longrightarrow> js_sub (safe m) (safe n) = NegInf"
  by (cases n) (simp_all add: safe_def js_sub_def)

lemma finite_minus_low: "\<not> isFinite m \<Longrightarrow> isFinite n \<Longrightarrow> js_sub (safe n) (safe m) = PosInf"
  by (cases n) (simp_all add: safe_def js_sub_def)

lemma compareRows_low:
  assumes "\<not> (isString (field a (sortBy f)) \<and> isString (field b (sortBy f)))"
    and "\<not> isFinite (Number S (field a (sortBy f)))"
    and "isFinite (Number S (field b (sortBy f)))"
  shows "compareRows S L f a b = (if sortDir f = ''asc'' then NegInf else PosInf)"
    and "compareRows S L f b a = (if sortDir f = ''asc'' then PosInf else NegInf)"
  using assms
  by (simp_all add: compareRows_numbers low_minus_finite finite_minus_low conj_commute)

lemma sortRows_low:
  assumes "\<not> (isString (field a (sortBy f)) \<and> isString (field b (sortBy f)))"
    and "\<not> isFinite (Number S (field a (sortBy f)))"
    and "isFinite (Number S (field b (sortBy f)))"
  shows "sortRows S L f [a, b] = (if sortDir f = ''asc'' then [a, b] else [b, a])"
    and "sortRows S L f [b, a] = (if sortDir f = ''asc'' then [a, b] else [b, a])"
  using compareRows_low [OF assms]
  by (simp_all add: sortRows_def sortCompare_def)

lemma sort_example:
  assumes "0 < L ''b'' ''a''"
  shows "sortRows S L (defaultForm\<lparr>sortBy := ''x'', sortDir := ''asc''\<rparr>)
       [row1 ''x'' (Str ''b''), row1 ''x'' (Str ''a'')] =
     [row1 ''x'' (Str ''a''), row1 ''x'' (Str ''b'')]"
  using assms
  by (simp add: sortRows_def sortCompare_def compareRows_def row1_def field_def)

text \<open>
  Claim C8. The comparator of \<open>sortRows\<close>: on two strings it is \<open>localeCompare\<close>, with
  the operands swapped for a direction other than \<open>'asc'\<close>; on anything else it is the
  difference of the two values as numbers, in the order of the direction, a number that is
  not finite (a missing field, a string that does not parse) replaced by \<open>-Infinity\<close>.
  So a row with such a value and a row with a finite one come out with the first before the
  second in ascending order and behind it in descending order, whatever their order in the
  input; and a list without a string in the column comes out ordered by the key in the
  direction of the form, with the lowest key for those values. With the rows
  \<open>{x: 'b'}\<close>, \<open>{x: 'a'}\<close>, ascending, the order is \<open>'a'\<close>, \<open>'b'\<close>, for every collation
  that puts \<open>'b'\<close> after \<open>'a'\<close>.
\<close>

theorem sortRows_comparator:
  "(field a (sortBy f) = Str x \<and> field b (sortBy f) = Str y \<longrightarrow>
      compareRows S L f a b = Fin (of_int (if sortDir f = ''asc'' then L x y else L y x))) \<and>
   (\<not> (isString (field a (sortBy f)) \<and> isString (field b (sortBy f))) \<longrightarrow>
      compareRows S L f a b =
        (if sortDir f = ''asc''
         then js_sub (safe (Number S (field a (sortBy f)))) (safe (Number S (field b (sortBy f))))
         else js_sub (safe (Number S (field b (sortBy f)))) (safe (Number S (field a (sortBy f)))))) \<and>
   safe n = (if isFinite n then n else NegInf) \<and>
   (a (sortBy f) = None \<longrightarrow> safe (Number S (field a (sortBy f))) = NegInf) \<and>
   (field a (sortBy f) = Str x \<and> S x = NaN \<longrightarrow> safe (Number S (field a (sortBy f))) = NegInf) \<and>
   (\<not> (isString (field a (sortBy f)) \<and> isString (field b (sortBy f))) \<and>
    \<not> isFinite (Number S (field a (sortBy f))) \<and> isFinite (Number S (field b (sortBy f))) \<longrightarrow>
      sortRows S L f [a, b] = (if sortDir f = ''asc'' then [a, b] else [b, a]) \<and>
      sortRows S L f [b, a] = (if sortDir f = ''asc'' then [a, b] else [b, a])) \<and>
   ((\<forall>r\<in>set rows. \<not> isString (field r (sortBy f))) \<longrightarrow>
      sorted_wrt (inOrder S f) (sortRows S L f rows)) \<and>
   mset (sortRows S L f rows) = mset rows \<and>
   (0 < L ''b'' ''a'' \<longrightarrow>
      sortRows S L (defaultForm\<lparr>sortBy := ''x'', sortDir := ''asc''\<rparr>)
        [row1 ''x'' (Str ''b''), row1 ''x'' (Str ''a'')] =
      [row1 ''x'' (Str ''a''), row1 ''x'' (Str ''b'')])"
proof -
  have m1: "a (sortBy f) = None \<longrightarrow> safe (Number S (field a (sortBy f))) = NegInf"
    by (simp add: field_def safe_def)
  have m2: "field a (sortBy f) = Str x \<and> S x = NaN \<longrightarrow>
      safe (Number S (field a (sortBy f))) = NegInf"
    by (simp add: safe_def)
  have ms: "mset (sortRows S L f rows) = mset rows"
    by (simp add: sortRows_def mset_Array_sort)
  from compareRows_strings [of a f x b y S L] compareRows_numbers [of a f b S L]
    safe_cases [of n] m1 m2 sortRows_low [of a f b S L] sortRows_sorted [of rows f S L] ms
    sort_example [of L S]
  show ?thesis by blast
qed

theorem sortRows_comparator_witness:
  "0 < codeUnitCompare ''b'' ''a'' \<and>
   sortRows digitsToNumber codeUnitCompare (defaultForm\<lparr>sortBy := ''x'', sortDir := ''asc''\<rparr>)
        [row1 ''x'' (Str ''b''), row1 ''x'' (Str ''a'')] =
      [row1 ''x'' (Str ''a''), row1 ''x'' (Str ''b'')] \<and>
   compareRows digitsToNumber codeUnitCompare (defaultForm\<lparr>sortBy := ''x'', sortDir := ''asc''\<rparr>)
        (row1 ''x'' (Str ''b'')) (row1 ''x'' (Str ''a'')) = Fin 1 \<and>
   sortRows digitsToNumber codeUnitCompare (defaultForm\<lparr>sortBy := ''x'', sortDir := ''asc''\<rparr>)
        [row1 ''x'' (Num (Fin 3)), row1 ''y'' (Num (Fin 1))] =
      [row1 ''y'' (Num (Fin 1)), row1 ''x'' (Num (Fin 3))] \<and>
   sortRows digitsToNumber codeUnitCompare (defaultForm\<lparr>sortBy := ''x'', sortDir := ''desc''\<rparr>)
        [row1 ''y'' (Num (Fin 1)), row1 ''x'' (Num (Fin 3))] =
      [row1 ''x'' (Num (Fin 3)), row1 ''y'' (Num (Fin 1))]"
  using
    sortRows_comparator [of "row1 ''x'' (Str ''b'')"
      "defaultForm\<lparr>sortBy := ''x'', sortDir := ''asc''\<rparr>" "''b''" "row1 ''x'' (Str ''a'')" "''a''"
      digitsToNumber codeUnitCompare "Fin 0" "[]"]
    sortRows_comparator [of "row1 ''y'' (Num (Fin 1))"
      "defaultForm\<lparr>sortBy := ''x'', sortDir := ''asc''\<rparr>" "''b''" "row1 ''x'' (Num (Fin 3))" "''a''"
      digitsToNumber codeUnitCompare "Fin 0" "[]"]
    sortRows_comparator [of "row1 ''y'' (Num (Fin 1))"
      "defaultForm\<lparr>sortBy := ''x'', sortDir := ''desc''\<rparr>" "''b''" "row1 ''x'' (Num (Fin 3))" "''a''"
      digitsToNumber codeUnitCompare "Fin 0" "[]"]
  by (simp add: row1_def field_def defaultForm_def)

subsection \<open>Pagination\<close>

lemma pagesFor_pos:
  "0 < sz \<Longrightarrow> pagesFor n sz = enat (max 1 (nat \<lceil>(of_nat n :: rat) / of_nat sz\<rceil>))"
  by (simp add: pagesFor_def Let_def max_def Suc_le_eq not_le)

lemma pageEffect_clamps:
  assumes "0 < pageSize s" and "1 \<le> page s" and "prev \<noteq> Some (totalPages s)"
  shows "1 \<le> page (pageEffect prev s)"
    and "enat (page (pageEffect prev s)) \<le> totalPages s"
    and "page (pageEffect prev s) = min (page s) (the_enat (totalPages s))"
  using assms
  by (auto simp: pageEffect_def clampPage_def totalPages_def pagesFor_pos)

lemma ceiling_47_25: "\<lceil>(47::rat) / 25\<rceil> = 2"
  by (simp add: ceiling_eq_iff)

lemma pages_example: "pagesFor 47 25 = 2"
  using ceiling_47_25 by (simp add: pagesFor_def Let_def numeral_eq_enat)

lemma page_example:
  "page (pageEffect (Some 10)
     (screener_init\<lparr>filteredRows := replicate 47 Map.empty, page := 5\<rparr>)) = 2"
  using pages_example
  by (simp add: pageEffect_def clampPage_def totalPages_def screener_init_def numeral_eq_enat)

text \<open>Every action of the page that sets the page leaves it at 1 or above.\<close>

lemma page_actions:
  "page (applyFilters S L s) = 1" "page (resetFilters s) = 1" "page (dataEffect rows s) = 1"
  "page (refreshOnly s) = page s"
  by (simp_all add: applyFilters_def resetFilters_def dataEffect_def refreshOnly_def Let_def)

text \<open>
  Claim C9. For a page size above 0 the number of pages is
  \<open>max(1, ceil(count / pageSize))\<close>. After a render at which that number is not what it was
  at the previous render (so whenever it has shrunk), the effect has run, and the page, which
  was at least 1, is at least 1 and at most the number of pages: it is the smaller of the
  old page and the number of pages. With 47 rows and a page size of 25 there are 2 pages,
  and page 5 becomes page 2.
\<close>

theorem totalPages_clamp:
  "(0 < pageSize s \<longrightarrow>
      totalPages s =
        enat (max 1 (nat \<lceil>(of_nat (length (filteredRows s)) :: rat) / of_nat (pageSize s)\<rceil>))) \<and>
   (0 < pageSize s \<and> 1 \<le> page s \<and> prev \<noteq> Some (totalPages s) \<longrightarrow>
      1 \<le> page (pageEffect prev s) \<and>
      enat (page (pageEffect prev s)) \<le> totalPages s \<and>
      page (pageEffect prev s) = min (page s) (the_enat (totalPages s))) \<and>
   pagesFor 47 25 = 2 \<and>
   page (pageEffect (Some 10)
     (screener_init\<lparr>filteredRows := replicate 47 Map.empty, page := 5\<rparr>)) = 2"
proof -
  have a: "0 < pageSize s \<longrightarrow>
      totalPages s =
        enat (max 1 (nat \<lceil>(of_nat (length (filteredRows s)) :: rat) / of_nat (pageSize s)\<rceil>))"
    using pagesFor_pos [of "pageSize s" "length (filteredRows s)"] by (simp add: totalPages_def)
  have b: "0 < pageSize s \<and> 1 \<le> page s \<and> prev \<noteq> Some (totalPages s) \<longrightarrow>
      1 \<le> page (pageEffect prev s) \<and>
      enat (page (pageEffect prev s)) \<le> totalPages s \<and>
      page (pageEffect prev s) = min (page s) (the_enat (totalPages s))"
    using pageEffect_clamps [of s prev] by blast
  from a b pages_example page_example show ?thesis by blast
qed

theorem totalPages_clamp_witness:
  "0 < pageSize (screener_init\<lparr>filteredRows := replicate 47 Map.empty, page := 5\<rparr>) \<and>
   1 \<le> page (screener_init\<lparr>filteredRows := replicate 47 Map.empty, page := 5\<rparr>) \<and>
   Some 10 \<noteq> Some (totalPages (screener_init\<lparr>filteredRows := replicate 47 Map.empty, page := 5\<rparr>)) \<and>
   totalPages (screener_init\<lparr>filteredRows := replicate 47 Map.empty, page := 5\<rparr>) = 2 \<and>
   page (pageEffect (Some 10)
     (screener_init\<lparr>filteredRows := replicate 47 Map.empty, page := 5\<rparr>)) = 2"
  using totalPages_clamp
    [of "screener_init\<lparr>filteredRows := replicate 47 Map.empty, page := 5\<rparr>" "Some 10"]
    pages_example
  by (simp add: totalPages_def screener_init_def numeral_eq_enat)

end
